theory Spec2Isabelle
  imports Complex_Main
begin

section \<open>JavaScript values used by the screens\<close>

text \<open>
  A property of a JavaScript object is either missing (\<open>'k' in obj\<close> is false), present
  with the value \<open>undefined\<close>, or present with a value. Numbers that count milliseconds are
  integers here; identifiers, file names and URIs are strings.
\<close>

datatype 'a jsprop = Absent | Undef | Val 'a

text \<open>\<open>'k' in obj\<close>\<close>

fun has :: "'a jsprop \<Rightarrow> bool" where
  "has Absent = False"
| "has Undef = True"
| "has (Val v) = True"

text \<open>\<open>obj.k || d\<close> on a number: \<open>undefined\<close> and \<open>0\<close> are falsy.\<close>

fun orNum :: "int jsprop \<Rightarrow> int \<Rightarrow> int" where
  "orNum (Val n) d = (if n = 0 then d else n)"
| "orNum Absent d = d"
| "orNum Undef d = d"

text \<open>\<open>obj.k || d\<close> on a boolean.\<close>

fun orBool :: "bool jsprop \<Rightarrow> bool \<Rightarrow> bool" where
  "orBool (Val b) d = (if b then True else d)"
| "orBool Absent d = d"
| "orBool Undef d = d"

text \<open>\<open>if (obj.k)\<close> on a boolean.\<close>

fun truthyBool :: "bool jsprop \<Rightarrow> bool" where
  "truthyBool (Val b) = b"
| "truthyBool Absent = False"
| "truthyBool Undef = False"

text \<open>\<open>s || d\<close> on a string: the empty string is falsy.\<close>

definition orStr :: "string \<Rightarrow> string \<Rightarrow> string" where
  "orStr s d = (if s = [] then d else s)"

text \<open>\<open>xs.indexOf(x)\<close>: the first position of \<open>x\<close>, or \<open>-1\<close>.\<close>

fun indexOf :: "'a list \<Rightarrow> 'a \<Rightarrow> int" where
  "indexOf [] x = - 1"
| "indexOf (y # ys) x =
     (if y = x then 0 else (let i = indexOf ys x in if i < 0 then - 1 else i + 1))"

text \<open>\<open>s.startsWith(p)\<close>\<close>

definition startsWith :: "string \<Rightarrow> string \<Rightarrow> bool" where
  "startsWith s p = (take (length p) s = p)"

text \<open>Decimal rendering of a number, as a template literal or \<open>toString()\<close> prints it.\<close>

definition digit :: "nat \<Rightarrow> char" where
  "digit d = ''0123456789'' ! d"

fun showNat :: "nat \<Rightarrow> string" where
  "showNat n = (if n < 10 then [digit n] else showNat (n div 10) @ [digit (n mod 10)])"

declare showNat.simps [simp del]

definition showInt :: "int \<Rightarrow> string" where
  "showInt i = (if i < 0 then CHR ''-'' # showNat (nat (- i)) else showNat (nat i))"

text \<open>\<open>s.padStart(n, '0')\<close>\<close>

definition padStart :: "nat \<Rightarrow> char \<Rightarrow> string \<Rightarrow> string" where
  "padStart n c s = replicate (n - length s) c @ s"

text \<open>The remainder operator \<open>%\<close> of JavaScript takes the sign of the dividend.\<close>

definition jsRem :: "int \<Rightarrow> int \<Rightarrow> int" where
  "jsRem a b = sgn a * (\<bar>a\<bar> mod \<bar>b\<bar>)"

text \<open>
  \<open>formatTime\<close> (the same function in both player screens): \<open>Math.floor\<close> of a quotient
  is \<open>div\<close> on integers.
\<close>

definition formatTime :: "int \<Rightarrow> string" where
  "formatTime millis =
     (let totalSeconds = millis div 1000;
          minutes = totalSeconds div 60;
          seconds = jsRem totalSeconds 60
      in showInt minutes @ '':'' @ padStart 2 (CHR ''0'') (showInt seconds))"

section \<open>The document picker\<close>

record asset =
  asset_uri :: string
  asset_name :: string
  mimeType :: "string option"
  asset_size :: "nat option"

text \<open>
  The three ways \<open>DocumentPicker.getDocumentAsync\<close> ends: the promise rejects, the user
  cancels, or the picker returns the chosen assets.
\<close>

datatype picked = PickerError | Canceled | Assets "asset list"

section \<open>The video player screen (app/(tabs)/index.tsx)\<close>

text \<open>The status object that the engine passes to \<open>onPlaybackStatusUpdate\<close>.\<close>

record AVPlaybackStatus =
  isLoaded :: "bool jsprop"
  isPlaying :: "bool jsprop"
  positionMillis :: "int jsprop"
  durationMillis :: "int jsprop"

text \<open>\<open>{} as AVPlaybackStatus\<close>, the initial status.\<close>

definition emptyStatus :: AVPlaybackStatus where
  "emptyStatus = \<lparr>isLoaded = Absent, isPlaying = Absent, positionMillis = Absent,
     durationMillis = Absent\<rparr>"

text \<open>The commands the screen sends to the \<open>Video\<close> component, in the order sent.\<close>

datatype engine_cmd =
    PauseAsync
  | PlayAsync
  | SetRateAsync "real option" bool
  | SetPositionAsync int

text \<open>
  A pending \<open>setTimeout\<close>. Its callback is the closure
  \<open>() => { if (isPlaying) setShowControls(false) }\<close>, which reads the \<open>isPlaying\<close> of
  the render that created it: \<open>captured\<close> is that value.
\<close>

record timer =
  tid :: nat
  due :: nat
  captured :: bool

record PlayerScreen =
  status :: AVPlaybackStatus
  isPlaying_st :: bool
  currentSpeed :: string
  videoUri :: "string option"
  showControls :: bool
  isFullscreen :: bool
  volume :: real
  currentFileName :: string
  controlsTimeoutRef :: "nat option"
  videoRef :: bool
  timers :: "timer list"
  nextTimerId :: nat
  engine :: "engine_cmd list"

definition PLAYBACK_SPEEDS :: "(string \<times> real) list" where
  "PLAYBACK_SPEEDS =
     [(''0.5x'', 0.5), (''0.75x'', 0.75), (''1x'', 1.0), (''1.25x'', 1.25),
      (''1.5x'', 1.5), (''2x'', 2.0), (''3x'', 3.0), (''4x'', 4.0)]"

text \<open>\<open>Object.keys\<close>: the keys are not array indices, so they come in insertion order.\<close>

definition keys :: "(string \<times> 'v) list \<Rightarrow> string list" where
  "keys obj = map fst obj"

text \<open>
  The state of the first render: timer handles are positive numbers, no timer is pending
  and nothing has been sent to the engine.
\<close>

definition initialPlayer :: PlayerScreen where
  "initialPlayer = \<lparr>status = emptyStatus, isPlaying_st = False, currentSpeed = ''1x'',
     videoUri = None, showControls = True, isFullscreen = False, volume = 1.0,
     currentFileName = [], controlsTimeoutRef = None, videoRef = False, timers = [],
     nextTimerId = 1, engine = []\<rparr>"

definition clearTimeout :: "nat \<Rightarrow> PlayerScreen \<Rightarrow> PlayerScreen" where
  "clearTimeout h s = s\<lparr>timers := filter (\<lambda>t. tid t \<noteq> h) (timers s)\<rparr>"

text \<open>
  \<open>resetControlsTimeout\<close> at time \<open>now\<close>, called through a closure whose render saw
  \<open>isPlaying = cap\<close>. A handle is truthy when it is not \<open>undefined\<close> and not \<open>0\<close>.
\<close>

definition resetControlsTimeout :: "nat \<Rightarrow> bool \<Rightarrow> PlayerScreen \<Rightarrow> PlayerScreen" where
  "resetControlsTimeout now cap s =
     (let s1 = (case controlsTimeoutRef s of
                  None \<Rightarrow> s
                | Some h \<Rightarrow> if h \<noteq> 0 then clearTimeout h s else s);
          h' = nextTimerId s1
      in s1\<lparr>timers := timers s1 @ [\<lparr>tid = h', due = now + 3000, captured = cap\<rparr>],
            nextTimerId := Suc h',
            controlsTimeoutRef := Some h'\<rparr>)"

text \<open>
  What React does after a handler has changed the state from \<open>old\<close> to \<open>new\<close>: the
  \<open>Video\<close> component is mounted (and \<open>videoRef.current\<close> set) exactly when \<open>videoUri\<close>
  is truthy, and the effect with dependency \<open>[showControls]\<close> runs when \<open>showControls\<close>
  has changed, with the closure of the new render.
\<close>

definition render :: "nat \<Rightarrow> PlayerScreen \<Rightarrow> PlayerScreen \<Rightarrow> PlayerScreen" where
  "render now old new =
     (let new' = new\<lparr>videoRef := (case videoUri new of None \<Rightarrow> False | Some u \<Rightarrow> u \<noteq> [])\<rparr>
      in if showControls new' \<noteq> showControls old
         then resetControlsTimeout now (isPlaying_st new') new'
         else new')"

text \<open>The first render: the effect runs once on mount.\<close>

definition mount :: "nat \<Rightarrow> PlayerScreen" where
  "mount now = resetControlsTimeout now (isPlaying_st initialPlayer) initialPlayer"

definition pickVideo :: "nat \<Rightarrow> picked \<Rightarrow> PlayerScreen \<Rightarrow> PlayerScreen" where
  "pickVideo now r s =
     (case r of
        PickerError \<Rightarrow> s
      | Canceled \<Rightarrow> s
      | Assets as \<Rightarrow>
          (case as of
             [] \<Rightarrow> s
           | a # _ \<Rightarrow>
               render now s
                 (s\<lparr>videoUri := Some (asset_uri a),
                    currentFileName := orStr (asset_name a) ''Unknown''\<rparr>)))"

text \<open>
  The handlers below await the engine: \<open>ok\<close> says whether the awaited promise resolves.
  When it rejects, the rest of the handler does not run. A handler is one step of the
  model: it runs from the state of the render whose closure was called, so the
  \<open>isPlaying\<close> that its \<open>resetControlsTimeout\<close> captures is the one of the state it
  starts from, also after an \<open>await\<close>.
\<close>

definition togglePlayPause :: "nat \<Rightarrow> bool \<Rightarrow> PlayerScreen \<Rightarrow> PlayerScreen" where
  "togglePlayPause now ok s =
     (let s1 = (if videoRef s
                then s\<lparr>engine := engine s @ [if isPlaying_st s then PauseAsync else PlayAsync]\<rparr>
                else s)
      in if videoRef s \<and> \<not> ok then s1
         else render now s (resetControlsTimeout now (isPlaying_st s) (s1\<lparr>showControls := True\<rparr>)))"

definition changeSpeed :: "nat \<Rightarrow> PlayerScreen \<Rightarrow> PlayerScreen" where
  "changeSpeed now s =
     (let speeds = keys PLAYBACK_SPEEDS;
          currentIndex = indexOf speeds (currentSpeed s);
          nextIndex = nat ((currentIndex + 1) mod int (length speeds));
          nextSpeed = speeds ! nextIndex;
          s1 = s\<lparr>currentSpeed := nextSpeed\<rparr>;
          s2 = (if videoRef s1
                then s1\<lparr>engine := engine s1 @ [SetRateAsync (map_of PLAYBACK_SPEEDS nextSpeed) True]\<rparr>
                else s1)
      in render now s (resetControlsTimeout now (isPlaying_st s) (s2\<lparr>showControls := True\<rparr>)))"

definition seekBackward :: "nat \<Rightarrow> bool \<Rightarrow> PlayerScreen \<Rightarrow> PlayerScreen" where
  "seekBackward now ok s =
     (let go = (videoRef s \<and> has (positionMillis (status s)));
          newPosition = max 0 (orNum (positionMillis (status s)) 0 - 10000);
          s1 = (if go then s\<lparr>engine := engine s @ [SetPositionAsync newPosition]\<rparr> else s)
      in if go \<and> \<not> ok then s1
         else render now s (resetControlsTimeout now (isPlaying_st s) (s1\<lparr>showControls := True\<rparr>)))"

definition seekForward :: "nat \<Rightarrow> bool \<Rightarrow> PlayerScreen \<Rightarrow> PlayerScreen" where
  "seekForward now ok s =
     (let go = (videoRef s \<and> has (positionMillis (status s)) \<and> has (durationMillis (status s)));
          newPosition = min (orNum (durationMillis (status s)) 0)
                            (orNum (positionMillis (status s)) 0 + 10000);
          s1 = (if go then s\<lparr>engine := engine s @ [SetPositionAsync newPosition]\<rparr> else s)
      in if go \<and> \<not> ok then s1
         else render now s (resetControlsTimeout now (isPlaying_st s) (s1\<lparr>showControls := True\<rparr>)))"

definition toggleFullscreen :: "nat \<Rightarrow> PlayerScreen \<Rightarrow> PlayerScreen" where
  "toggleFullscreen now s =
     render now s
       (resetControlsTimeout now (isPlaying_st s)
          (s\<lparr>isFullscreen := \<not> isFullscreen s, showControls := True\<rparr>))"

definition handleVideoTap :: "nat \<Rightarrow> PlayerScreen \<Rightarrow> PlayerScreen" where
  "handleVideoTap now s =
     (let s1 = s\<lparr>showControls := \<not> showControls s\<rparr>;
          s2 = (if \<not> showControls s then resetControlsTimeout now (isPlaying_st s) s1 else s1)
      in render now s s2)"

definition onPlaybackStatusUpdate :: "nat \<Rightarrow> AVPlaybackStatus \<Rightarrow> PlayerScreen \<Rightarrow> PlayerScreen" where
  "onPlaybackStatusUpdate now playbackStatus s =
     (let s1 = s\<lparr>status := playbackStatus\<rparr>;
          s2 = (if has (isLoaded playbackStatus)
                then s1\<lparr>isPlaying_st := orBool (isPlaying playbackStatus) False\<rparr>
                else s1)
      in render now s s2)"

text \<open>
  The timer with handle \<open>h\<close> fires at time \<open>now\<close>: nothing happens unless it is pending and
  due; otherwise it leaves the pending timers and its callback runs.
\<close>

definition timeoutFires :: "nat \<Rightarrow> nat \<Rightarrow> PlayerScreen \<Rightarrow> PlayerScreen" where
  "timeoutFires now h s =
     (case find (\<lambda>t. tid t = h \<and> due t \<le> now) (timers s) of
        None \<Rightarrow> s
      | Some t \<Rightarrow>
          (let s1 = clearTimeout h s;
               s2 = (if captured t then s1\<lparr>showControls := False\<rparr> else s1)
           in render now s s2))"

text \<open>Everything that can happen to the screen, and a run of timed events.\<close>

datatype event =
    PickVideo picked
  | TogglePlayPause bool
  | ChangeSpeed
  | SeekBackward bool
  | SeekForward bool
  | ToggleFullscreen
  | HandleVideoTap
  | StatusUpdate AVPlaybackStatus
  | TimeoutFires nat

fun step :: "nat \<Rightarrow> event \<Rightarrow> PlayerScreen \<Rightarrow> PlayerScreen" where
  "step now (PickVideo r) s = pickVideo now r s"
| "step now (TogglePlayPause ok) s = togglePlayPause now ok s"
| "step now ChangeSpeed s = changeSpeed now s"
| "step now (SeekBackward ok) s = seekBackward now ok s"
| "step now (SeekForward ok) s = seekForward now ok s"
| "step now ToggleFullscreen s = toggleFullscreen now s"
| "step now HandleVideoTap s = handleVideoTap now s"
| "step now (StatusUpdate ps) s = onPlaybackStatusUpdate now ps s"
| "step now (TimeoutFires h) s = timeoutFires now h s"

fun run :: "(nat \<times> event) list \<Rightarrow> PlayerScreen \<Rightarrow> PlayerScreen" where
  "run [] s = s"
| "run ((now, e) # es) s = run es (step now e s)"

text \<open>
  The label that \<open>changeSpeed\<close> moves to from the label \<open>c\<close> (its first four
  lines, without the state).
\<close>

definition nextSpeedLabel :: "string \<Rightarrow> string" where
  "nextSpeedLabel c =
     (let speeds = keys PLAYBACK_SPEEDS
      in speeds ! nat ((indexOf speeds c + 1) mod int (length speeds)))"

text \<open>
  The invariant of the hide timer: handles are never \<open>0\<close>, and a pending timer is the one
  whose handle \<open>controlsTimeoutRef\<close> holds.
\<close>

definition timer_inv :: "PlayerScreen \<Rightarrow> bool" where
  "timer_inv s =
     (nextTimerId s \<noteq> 0 \<and> length (timers s) \<le> 1 \<and>
      list_all (\<lambda>t. controlsTimeoutRef s = Some (tid t) \<and> tid t \<noteq> 0) (timers s))"

text \<open>
  The link between the state and the ref: the video component exists (and
  \<open>videoRef.current\<close> is set) exactly when \<open>videoUri\<close> is truthy.
\<close>

definition ref_inv :: "PlayerScreen \<Rightarrow> bool" where
  "ref_inv s = (videoRef s = (case videoUri s of None \<Rightarrow> False | Some u \<Rightarrow> u \<noteq> []))"

subsection \<open>The seek target of the specification\<close>

text \<open>
  Written from the specification's words, to be compared with the handlers above:
  \<open>target = clamp(positionMillis + deltaMillis, 0, durationMillis ?? positionMillis)\<close>.
\<close>

definition clamp :: "int \<Rightarrow> int \<Rightarrow> int \<Rightarrow> int" where
  "clamp x lo hi = max lo (min hi x)"

definition spec_seekBy_target :: "int \<Rightarrow> int \<Rightarrow> int option \<Rightarrow> int" where
  "spec_seekBy_target pos delta dur =
     clamp (pos + delta) 0 (case dur of None \<Rightarrow> pos | Some d \<Rightarrow> d)"

section \<open>The audio player screen (app/(tabs)/audio.tsx)\<close>

text \<open>The calls the screen makes on \<open>Audio.Sound\<close> objects; a sound object is a handle.\<close>

datatype sound_cmd =
    CreateAsync string
  | UnloadAsync nat
  | GetStatusAsync nat
  | SoundPauseAsync nat
  | SoundPlayAsync nat

record AudioScreen =
  sound :: "nat option"
  isPlaying_au :: bool
  currentTrack :: "string option"
  trackName :: string
  position :: int
  duration :: int
  isLoading :: bool
  sound_calls :: "sound_cmd list"

definition initialAudio :: AudioScreen where
  "initialAudio = \<lparr>sound = None, isPlaying_au = False, currentTrack = None, trackName = [],
     position = 0, duration = 0, isLoading = False, sound_calls = []\<rparr>"

text \<open>
  How the engine answers during one \<open>pickAudio\<close>: whether \<open>unloadAsync\<close> resolves, the
  sound object that \<open>createAsync\<close> returns (\<open>None\<close> when it rejects) and the status that
  \<open>getStatusAsync\<close> returns (\<open>None\<close> when it rejects).
\<close>

record audio_env =
  unloadOk :: bool
  created :: "nat option"
  newStatus :: "AVPlaybackStatus option"

text \<open>
  After a handler: the cleanup of the effect with dependency \<open>[sound]\<close> unloads the
  previous sound object when \<open>sound\<close> has changed.
\<close>

definition renderAudio :: "AudioScreen \<Rightarrow> AudioScreen \<Rightarrow> AudioScreen" where
  "renderAudio old new =
     (if sound new \<noteq> sound old
      then (case sound old of
              None \<Rightarrow> new
            | Some h \<Rightarrow> new\<lparr>sound_calls := sound_calls new @ [UnloadAsync h]\<rparr>)
      else new)"

text \<open>
  \<open>pickAudio\<close>: every rejected promise goes to the \<open>catch\<close> block, which only logs, and
  the \<open>finally\<close> block sets \<open>isLoading\<close> back to \<open>false\<close>.
\<close>

definition pickAudio :: "picked \<Rightarrow> audio_env \<Rightarrow> AudioScreen \<Rightarrow> AudioScreen" where
  "pickAudio r env s =
     (let body =
        (case r of
           PickerError \<Rightarrow> s
         | Canceled \<Rightarrow> s
         | Assets as \<Rightarrow>
             (case as of
                [] \<Rightarrow> s
              | a # _ \<Rightarrow>
                  (let s1 = (case sound s of
                               None \<Rightarrow> s
                             | Some h \<Rightarrow> s\<lparr>sound_calls := sound_calls s @ [UnloadAsync h]\<rparr>)
                   in if sound s \<noteq> None \<and> \<not> unloadOk env then s1
                      else
                        (let s2 = s1\<lparr>sound_calls := sound_calls s1 @ [CreateAsync (asset_uri a)]\<rparr>
                         in case created env of
                              None \<Rightarrow> s2
                            | Some newSound \<Rightarrow>
                                (let s3 = s2\<lparr>sound := Some newSound,
                                             currentTrack := Some (asset_uri a),
                                             trackName := orStr (asset_name a) ''Unknown Track'',
                                             sound_calls := sound_calls s2 @ [GetStatusAsync newSound]\<rparr>
                                 in case newStatus env of
                                      None \<Rightarrow> s3
                                    | Some st \<Rightarrow>
                                        if truthyBool (isLoaded st)
                                        then s3\<lparr>duration := orNum (durationMillis st) 0\<rparr>
                                        else s3)))))
      in renderAudio s (body\<lparr>isLoading := False\<rparr>))"

text \<open>
  \<open>togglePlayPause\<close> of the audio screen: \<open>st\<close> is the answer of \<open>getStatusAsync\<close>
  (\<open>None\<close> when it rejects) and \<open>ok\<close> says whether the play or pause call resolves.
\<close>

definition togglePlayPauseAudio :: "AVPlaybackStatus option \<Rightarrow> bool \<Rightarrow> AudioScreen \<Rightarrow> AudioScreen" where
  "togglePlayPauseAudio st ok s =
     (case sound s of
        None \<Rightarrow> s
      | Some h \<Rightarrow>
          (let s1 = s\<lparr>sound_calls := sound_calls s @ [GetStatusAsync h]\<rparr>
           in case st of
                None \<Rightarrow> s1
              | Some stat \<Rightarrow>
                  if truthyBool (isLoaded stat)
                  then (let s2 = s1\<lparr>sound_calls := sound_calls s1 @
                                   [if isPlaying_au s then SoundPauseAsync h else SoundPlayAsync h]\<rparr>
                        in if ok then s2\<lparr>isPlaying_au := \<not> isPlaying_au s\<rparr> else s2)
                  else s1))"

text \<open>What the progress bar and the two time labels show.\<close>

definition progressPercent :: "AudioScreen \<Rightarrow> real" where
  "progressPercent s =
     (if duration s > 0 then (real_of_int (position s) / real_of_int (duration s)) * 100 else 0)"

definition elapsedLabel :: "AudioScreen \<Rightarrow> string" where
  "elapsedLabel s = formatTime (position s)"

definition durationLabel :: "AudioScreen \<Rightarrow> string" where
  "durationLabel s = formatTime (duration s)"

text \<open>
  The screen has two handlers that change its state; it registers no status callback on
  the sound object.
\<close>

datatype audio_event =
    PickAudio picked audio_env
  | ToggleAudio "AVPlaybackStatus option" bool

fun stepAudio :: "audio_event \<Rightarrow> AudioScreen \<Rightarrow> AudioScreen" where
  "stepAudio (PickAudio r env) s = pickAudio r env s"
| "stepAudio (ToggleAudio st ok) s = togglePlayPauseAudio st ok s"

fun runAudio :: "audio_event list \<Rightarrow> AudioScreen \<Rightarrow> AudioScreen" where
  "runAudio [] s = s"
| "runAudio (e # es) s = runAudio es (stepAudio e s)"

section \<open>The library screen\<close>

datatype media_type = Video | Audio

text \<open>
  A \<open>MediaFile\<close>; its optional \<open>duration\<close> and \<open>thumbnail\<close> are never assigned and are
  left out. Dates are milliseconds since the epoch.
\<close>

record MediaFile =
  mf_id :: string
  mf_name :: string
  mf_uri :: string
  mf_type :: media_type
  mf_size :: nat
  addedAt :: nat

datatype selected = All | Only media_type

record LibraryScreen =
  mediaFiles :: "MediaFile list"
  selectedType :: selected

text \<open>The state after \<open>loadSavedFiles\<close>.\<close>

definition initialLibrary :: LibraryScreen where
  "initialLibrary = \<lparr>mediaFiles = [], selectedType = All\<rparr>"

text \<open>
  The object built for the asset at position \<open>index\<close>; \<open>now\<close> is what \<open>Date.now()\<close>
  returns there and \<open>date\<close> what \<open>new Date()\<close> returns.
\<close>

definition newFile :: "nat \<Rightarrow> nat \<Rightarrow> nat \<Rightarrow> asset \<Rightarrow> MediaFile" where
  "newFile now date index a =
     \<lparr>mf_id = showNat now @ ''-'' @ showNat index,
      mf_name = orStr (asset_name a) ''Unknown'',
      mf_uri = asset_uri a,
      mf_type = (case mimeType a of
                   None \<Rightarrow> Audio
                 | Some m \<Rightarrow> if startsWith m ''video/'' then Video else Audio),
      mf_size = (case asset_size a of None \<Rightarrow> 0 | Some n \<Rightarrow> n),
      addedAt = date\<rparr>"

text \<open>
  \<open>addMediaFile\<close>: \<open>clock i\<close> and \<open>dates i\<close> are the two clock readings made while the
  asset at position \<open>i\<close> is mapped.
\<close>

definition addMediaFile :: "(nat \<Rightarrow> nat) \<Rightarrow> (nat \<Rightarrow> nat) \<Rightarrow> picked \<Rightarrow> LibraryScreen \<Rightarrow> LibraryScreen" where
  "addMediaFile clock dates r s =
     (case r of
        PickerError \<Rightarrow> s
      | Canceled \<Rightarrow> s
      | Assets as \<Rightarrow>
          (let newFiles = map (\<lambda>(index, a). newFile (clock index) (dates index) index a)
                              (enumerate 0 as)
           in s\<lparr>mediaFiles := mediaFiles s @ newFiles\<rparr>))"

text \<open>The two buttons of the confirmation alert of \<open>removeMediaFile\<close>.\<close>

datatype alert_button = CancelButton | RemoveButton

definition removeMediaFile :: "string \<Rightarrow> alert_button \<Rightarrow> LibraryScreen \<Rightarrow> LibraryScreen" where
  "removeMediaFile ident b s =
     (case b of
        CancelButton \<Rightarrow> s
      | RemoveButton \<Rightarrow> s\<lparr>mediaFiles := filter (\<lambda>file. mf_id file \<noteq> ident) (mediaFiles s)\<rparr>)"

definition setSelectedType :: "selected \<Rightarrow> LibraryScreen \<Rightarrow> LibraryScreen" where
  "setSelectedType t s = s\<lparr>selectedType := t\<rparr>"

definition filteredFiles :: "LibraryScreen \<Rightarrow> MediaFile list" where
  "filteredFiles s =
     filter (\<lambda>file. case selectedType s of All \<Rightarrow> True | Only t \<Rightarrow> mf_type file = t)
            (mediaFiles s)"

text \<open>The count shown in a filter tab and in the stats bar.\<close>

definition countByType :: "media_type \<Rightarrow> LibraryScreen \<Rightarrow> nat" where
  "countByType t s = length (filter (\<lambda>f. mf_type f = t) (mediaFiles s))"

section \<open>Example inputs\<close>

text \<open>Two picked files, and the statuses an engine reports for a clip of one minute.\<close>

definition clipA :: asset where
  "clipA = \<lparr>asset_uri = ''file:///a.mp4'', asset_name = ''a.mp4'',
     mimeType = Some ''video/mp4'', asset_size = Some 1024\<rparr>"

definition clipB :: asset where
  "clipB = \<lparr>asset_uri = ''file:///b.mp3'', asset_name = ''b.mp3'',
     mimeType = Some ''audio/mpeg'', asset_size = Some 2048\<rparr>"

definition loadedStatus :: "bool \<Rightarrow> int \<Rightarrow> AVPlaybackStatus" where
  "loadedStatus playing pos = \<lparr>isLoaded = Val True, isPlaying = Val playing,
     positionMillis = Val pos, durationMillis = Val 60000\<rparr>"

text \<open>The status of a source that could not be loaded: \<open>{isLoaded: false}\<close>.\<close>

definition errorStatus :: AVPlaybackStatus where
  "errorStatus = \<lparr>isLoaded = Val False, isPlaying = Absent, positionMillis = Absent,
     durationMillis = Absent\<rparr>"

text \<open>A loaded status whose duration is not known yet: it has no \<open>durationMillis\<close> key.\<close>

definition noDurationStatus :: "int \<Rightarrow> AVPlaybackStatus" where
  "noDurationStatus pos = \<lparr>isLoaded = Val True, isPlaying = Val False,
     positionMillis = Val pos, durationMillis = Absent\<rparr>"

section \<open>Frame properties of the timer and of rendering\<close>

lemma clearTimeout_fields [simp]:
  "status (clearTimeout h s) = status s"
  "isPlaying_st (clearTimeout h s) = isPlaying_st s"
  "currentSpeed (clearTimeout h s) = currentSpeed s"
  "videoUri (clearTimeout h s) = videoUri s"
  "showControls (clearTimeout h s) = showControls s"
  "isFullscreen (clearTimeout h s) = isFullscreen s"
  "currentFileName (clearTimeout h s) = currentFileName s"
  "controlsTimeoutRef (clearTimeout h s) = controlsTimeoutRef s"
  "videoRef (clearTimeout h s) = videoRef s"
  "nextTimerId (clearTimeout h s) = nextTimerId s"
  "engine (clearTimeout h s) = engine s"
  by (simp_all add: clearTimeout_def)

lemma resetControlsTimeout_fields [simp]:
  "status (resetControlsTimeout now c s) = status s"
  "isPlaying_st (resetControlsTimeout now c s) = isPlaying_st s"
  "currentSpeed (resetControlsTimeout now c s) = currentSpeed s"
  "videoUri (resetControlsTimeout now c s) = videoUri s"
  "showControls (resetControlsTimeout now c s) = showControls s"
  "isFullscreen (resetControlsTimeout now c s) = isFullscreen s"
  "currentFileName (resetControlsTimeout now c s) = currentFileName s"
  "videoRef (resetControlsTimeout now c s) = videoRef s"
  "engine (resetControlsTimeout now c s) = engine s"
  by (simp_all add: resetControlsTimeout_def Let_def split: option.splits)

lemma render_fields [simp]:
  "status (render now old s) = status s"
  "isPlaying_st (render now old s) = isPlaying_st s"
  "currentSpeed (render now old s) = currentSpeed s"
  "videoUri (render now old s) = videoUri s"
  "showControls (render now old s) = showControls s"
  "isFullscreen (render now old s) = isFullscreen s"
  "currentFileName (render now old s) = currentFileName s"
  "engine (render now old s) = engine s"
  by (simp_all add: render_def Let_def)

section \<open>The speed cycle\<close>

lemma keys_PLAYBACK_SPEEDS:
  "keys PLAYBACK_SPEEDS =
     [''0.5x'', ''0.75x'', ''1x'', ''1.25x'', ''1.5x'', ''2x'', ''3x'', ''4x'']"
  by (simp add: keys_def PLAYBACK_SPEEDS_def)

lemma nextSpeedLabel_table:
  "nextSpeedLabel ''0.5x'' = ''0.75x''"
  "nextSpeedLabel ''0.75x'' = ''1x''"
  "nextSpeedLabel ''1x'' = ''1.25x''"
  "nextSpeedLabel ''1.25x'' = ''1.5x''"
  "nextSpeedLabel ''1.5x'' = ''2x''"
  "nextSpeedLabel ''2x'' = ''3x''"
  "nextSpeedLabel ''3x'' = ''4x''"
  "nextSpeedLabel ''4x'' = ''0.5x''"
  by (simp_all add: nextSpeedLabel_def keys_PLAYBACK_SPEEDS)

lemma nextSpeedLabel_rotates:
  "map nextSpeedLabel (keys PLAYBACK_SPEEDS) = rotate1 (keys PLAYBACK_SPEEDS)"
  by (simp add: keys_PLAYBACK_SPEEDS nextSpeedLabel_table)

lemma changeSpeed_label: "currentSpeed (changeSpeed now s) = nextSpeedLabel (currentSpeed s)"
  unfolding changeSpeed_def nextSpeedLabel_def Let_def by simp

lemma fold_changeSpeed_label:
  "currentSpeed (fold changeSpeed ts s) = (nextSpeedLabel ^^ length ts) (currentSpeed s)"
proof (induction ts arbitrary: s)
  case Nil
  show ?case by simp
next
  case (Cons t ts)
  have "currentSpeed (fold changeSpeed (t # ts) s) =
        (nextSpeedLabel ^^ length ts) (nextSpeedLabel (currentSpeed s))"
    by (simp add: Cons.IH changeSpeed_label)
  then show ?case by (simp add: funpow_swap1)
qed

lemma nextSpeedLabel_eight:
  assumes "c \<in> set (keys PLAYBACK_SPEEDS)"
  shows "(nextSpeedLabel ^^ 8) c = c"
proof -
  have e: "(nextSpeedLabel ^^ 8) c =
    nextSpeedLabel (nextSpeedLabel (nextSpeedLabel (nextSpeedLabel
      (nextSpeedLabel (nextSpeedLabel (nextSpeedLabel (nextSpeedLabel c)))))))"
    by (simp add: eval_nat_numeral funpow_swap1)
  from assms consider "c = ''0.5x''" | "c = ''0.75x''" | "c = ''1x''" | "c = ''1.25x''"
    | "c = ''1.5x''" | "c = ''2x''" | "c = ''3x''" | "c = ''4x''"
    unfolding keys_PLAYBACK_SPEEDS by auto
  then show ?thesis
    unfolding e by cases (simp_all only: nextSpeedLabel_table)
qed

lemma changeSpeed_rate:
  "videoRef s \<Longrightarrow> engine (changeSpeed now s) =
     engine s @ [SetRateAsync (map_of PLAYBACK_SPEEDS (nextSpeedLabel (currentSpeed s))) True]"
  unfolding changeSpeed_def nextSpeedLabel_def Let_def by simp

text \<open>
  Claim C5. The speed table is the fixed ordered list of rates 0.5, 0.75, 1, 1.25, 1.5, 2,
  3, 4; \<open>changeSpeed\<close> moves the label at position \<open>i\<close> of the table to the label at
  position \<open>(i + 1) mod 8\<close>, so the last entry wraps to the first; from any label of
  the table, eight calls (at any times) give the original label back; and one call from
  \<open>1x\<close> gives \<open>1.25x\<close>.
\<close>

theorem cycleSpeed_cyclic:
  "map snd PLAYBACK_SPEEDS = [0.5, 0.75, 1.0, 1.25, 1.5, 2.0, 3.0, 4.0] \<and>
   (\<forall>i < 8. currentSpeed s = keys PLAYBACK_SPEEDS ! i \<longrightarrow>
      currentSpeed (changeSpeed now s) = keys PLAYBACK_SPEEDS ! ((i + 1) mod 8)) \<and>
   (currentSpeed s \<in> set (keys PLAYBACK_SPEEDS) \<and> length ts = 8 \<longrightarrow>
      currentSpeed (fold changeSpeed ts s) = currentSpeed s) \<and>
   (currentSpeed s = ''1x'' \<longrightarrow> currentSpeed (changeSpeed now s) = ''1.25x'')"
proof (intro conjI allI impI)
  show "map snd PLAYBACK_SPEEDS = [0.5, 0.75, 1.0, 1.25, 1.5, 2.0, 3.0, 4.0]"
    by (simp add: PLAYBACK_SPEEDS_def)
next
  fix i :: nat
  assume i: "i < 8" and c: "currentSpeed s = keys PLAYBACK_SPEEDS ! i"
  have len: "length (keys PLAYBACK_SPEEDS) = 8"
    by (simp add: keys_PLAYBACK_SPEEDS)
  have "nextSpeedLabel (keys PLAYBACK_SPEEDS ! i) = map nextSpeedLabel (keys PLAYBACK_SPEEDS) ! i"
    using i len by simp
  also have "\<dots> = rotate1 (keys PLAYBACK_SPEEDS) ! i"
    by (simp only: nextSpeedLabel_rotates)
  also have "\<dots> = keys PLAYBACK_SPEEDS ! ((i + 1) mod 8)"
    using i len by (simp add: nth_rotate1)
  finally show "currentSpeed (changeSpeed now s) = keys PLAYBACK_SPEEDS ! ((i + 1) mod 8)"
    by (simp add: changeSpeed_label c)
next
  assume "currentSpeed s \<in> set (keys PLAYBACK_SPEEDS) \<and> length ts = 8"
  then show "currentSpeed (fold changeSpeed ts s) = currentSpeed s"
    by (simp add: fold_changeSpeed_label nextSpeedLabel_eight)
next
  assume "currentSpeed s = ''1x''"
  then show "currentSpeed (changeSpeed now s) = ''1.25x''"
    by (simp add: changeSpeed_label nextSpeedLabel_table)
qed

theorem cycleSpeed_cyclic_witness:
  "currentSpeed (fold changeSpeed [0, 1, 2, 3, 4, 5, 6, 7] (mount 0)) = ''1x'' \<and>
   currentSpeed (changeSpeed 0 (mount 0)) = ''1.25x'' \<and>
   currentSpeed (changeSpeed 9 (changeSpeed 0 (mount 0))) = ''1.5x''"
proof -
  have c: "currentSpeed (mount 0) = ''1x''"
    by (simp add: mount_def initialPlayer_def)
  have m: "currentSpeed (mount 0) \<in> set (keys PLAYBACK_SPEEDS)"
    by (simp add: c keys_PLAYBACK_SPEEDS)
  have l: "length [0::nat, 1, 2, 3, 4, 5, 6, 7] = 8" by simp
  have a: "currentSpeed (fold changeSpeed [0, 1, 2, 3, 4, 5, 6, 7] (mount 0)) = ''1x''"
    using cycleSpeed_cyclic [of "mount 0" 0 "[0, 1, 2, 3, 4, 5, 6, 7]"] m l c by simp
  have b: "currentSpeed (changeSpeed 0 (mount 0)) = ''1.25x''"
    using cycleSpeed_cyclic [of "mount 0" 0 "[]"] c by blast
  have k: "currentSpeed (changeSpeed 0 (mount 0)) = keys PLAYBACK_SPEEDS ! 3"
    by (simp add: b keys_PLAYBACK_SPEEDS)
  have "\<forall>i < 8. currentSpeed (changeSpeed 0 (mount 0)) = keys PLAYBACK_SPEEDS ! i \<longrightarrow>
      currentSpeed (changeSpeed 9 (changeSpeed 0 (mount 0))) = keys PLAYBACK_SPEEDS ! ((i + 1) mod 8)"
    using cycleSpeed_cyclic [of "changeSpeed 0 (mount 0)" 9 "[]"] by blast
  then have "currentSpeed (changeSpeed 0 (mount 0)) = keys PLAYBACK_SPEEDS ! 3 \<longrightarrow>
      currentSpeed (changeSpeed 9 (changeSpeed 0 (mount 0))) = keys PLAYBACK_SPEEDS ! ((3 + 1) mod 8)"
    by (rule allE [where x = 3]) simp
  with k have "currentSpeed (changeSpeed 9 (changeSpeed 0 (mount 0))) = keys PLAYBACK_SPEEDS ! ((3 + 1) mod 8)"
    by blast
  then have d: "currentSpeed (changeSpeed 9 (changeSpeed 0 (mount 0))) = ''1.5x''"
    by (simp add: keys_PLAYBACK_SPEEDS)
  from a b d show ?thesis by simp
qed

section \<open>The hide timer\<close>

lemma timer_inv_cases:
  assumes "timer_inv s"
  obtains "timers s = []" "nextTimerId s \<noteq> 0"
  | t where "timers s = [t]" "controlsTimeoutRef s = Some (tid t)" "tid t \<noteq> 0" "nextTimerId s \<noteq> 0"
proof (cases "timers s")
  case Nil
  with assms that(1) show ?thesis by (simp add: timer_inv_def)
next
  case (Cons t ts)
  with assms have "ts = []" by (simp add: timer_inv_def)
  with Cons assms that(2) show ?thesis by (simp add: timer_inv_def)
qed

lemma resetControlsTimeout_ref [simp]:
  "controlsTimeoutRef (resetControlsTimeout now c s) = Some (nextTimerId s)"
  "nextTimerId (resetControlsTimeout now c s) = Suc (nextTimerId s)"
  by (simp_all add: resetControlsTimeout_def Let_def split: option.splits)

lemma resetControlsTimeout_timers:
  assumes "timer_inv s"
  shows "timers (resetControlsTimeout now c s) =
           [\<lparr>tid = nextTimerId s, due = now + 3000, captured = c\<rparr>]"
  using assms
  by (rule timer_inv_cases)
     (simp_all add: resetControlsTimeout_def clearTimeout_def Let_def split: option.splits)

lemma resetControlsTimeout_inv:
  assumes "timer_inv s"
  shows "timer_inv (resetControlsTimeout now c s)"
proof -
  have "nextTimerId s \<noteq> 0" using assms by (simp add: timer_inv_def)
  then show ?thesis
    by (simp add: timer_inv_def resetControlsTimeout_timers [OF assms])
qed

lemma render_inv:
  assumes "timer_inv new"
  shows "timer_inv (render now old new)"
proof -
  let ?n = "new\<lparr>videoRef := (case videoUri new of None \<Rightarrow> False | Some u \<Rightarrow> u \<noteq> [])\<rparr>"
  have "timer_inv ?n" using assms by (simp add: timer_inv_def)
  then show ?thesis
    by (simp add: render_def Let_def resetControlsTimeout_inv del: resetControlsTimeout_fields)
qed

lemma clearTimeout_inv:
  assumes "timer_inv s"
  shows "timer_inv (clearTimeout h s)"
  using assms
  by (rule timer_inv_cases) (simp_all add: timer_inv_def clearTimeout_def)

lemma timer_inv_update [simp]:
  "timer_inv (s\<lparr>status := a\<rparr>) = timer_inv s"
  "timer_inv (s\<lparr>isPlaying_st := b\<rparr>) = timer_inv s"
  "timer_inv (s\<lparr>currentSpeed := c\<rparr>) = timer_inv s"
  "timer_inv (s\<lparr>videoUri := d\<rparr>) = timer_inv s"
  "timer_inv (s\<lparr>showControls := e\<rparr>) = timer_inv s"
  "timer_inv (s\<lparr>isFullscreen := f\<rparr>) = timer_inv s"
  "timer_inv (s\<lparr>currentFileName := g\<rparr>) = timer_inv s"
  "timer_inv (s\<lparr>videoRef := i\<rparr>) = timer_inv s"
  "timer_inv (s\<lparr>engine := j\<rparr>) = timer_inv s"
  by (simp_all add: timer_inv_def)

lemma pickVideo_inv: "timer_inv s \<Longrightarrow> timer_inv (pickVideo now r s)"
  unfolding pickVideo_def
  by (auto split: picked.splits list.splits intro!: render_inv)

lemma togglePlayPause_inv: "timer_inv s \<Longrightarrow> timer_inv (togglePlayPause now ok s)"
  unfolding togglePlayPause_def Let_def
  by (auto intro!: render_inv resetControlsTimeout_inv)

lemma changeSpeed_inv: "timer_inv s \<Longrightarrow> timer_inv (changeSpeed now s)"
  unfolding changeSpeed_def Let_def
  by (auto intro!: render_inv resetControlsTimeout_inv)

lemma seekBackward_inv: "timer_inv s \<Longrightarrow> timer_inv (seekBackward now ok s)"
  unfolding seekBackward_def Let_def
  by (auto intro!: render_inv resetControlsTimeout_inv)

lemma seekForward_inv: "timer_inv s \<Longrightarrow> timer_inv (seekForward now ok s)"
  unfolding seekForward_def Let_def
  by (auto intro!: render_inv resetControlsTimeout_inv)

lemma toggleFullscreen_inv: "timer_inv s \<Longrightarrow> timer_inv (toggleFullscreen now s)"
  unfolding toggleFullscreen_def
  by (auto intro!: render_inv resetControlsTimeout_inv)

lemma handleVideoTap_inv: "timer_inv s \<Longrightarrow> timer_inv (handleVideoTap now s)"
  unfolding handleVideoTap_def Let_def
  by (auto intro!: render_inv resetControlsTimeout_inv)

lemma onPlaybackStatusUpdate_inv: "timer_inv s \<Longrightarrow> timer_inv (onPlaybackStatusUpdate now ps s)"
  unfolding onPlaybackStatusUpdate_def Let_def
  by (auto intro!: render_inv)

lemma timeoutFires_inv: "timer_inv s \<Longrightarrow> timer_inv (timeoutFires now h s)"
proof -
  assume a: "timer_inv s"
  have c: "timer_inv (clearTimeout h s)" by (rule clearTimeout_inv [OF a])
  with a show ?thesis
    unfolding timeoutFires_def Let_def
    by (auto split: option.splits intro!: render_inv)
qed

lemma step_inv: "timer_inv s \<Longrightarrow> timer_inv (step now e s)"
  by (cases e)
     (simp_all add: pickVideo_inv togglePlayPause_inv changeSpeed_inv seekBackward_inv
        seekForward_inv toggleFullscreen_inv handleVideoTap_inv onPlaybackStatusUpdate_inv
        timeoutFires_inv)

lemma run_inv: "timer_inv s \<Longrightarrow> timer_inv (run es s)"
proof (induction es arbitrary: s)
  case Nil
  then show ?case by simp
next
  case (Cons e es)
  obtain now ev where e: "e = (now, ev)" by (cases e)
  from Cons.prems have "timer_inv (step now ev s)" by (rule step_inv)
  then show ?case using Cons.IH e by simp
qed

lemma mount_inv: "timer_inv (mount t0)"
  by (simp add: mount_def initialPlayer_def resetControlsTimeout_def timer_inv_def Let_def)

lemma reachable_inv: "timer_inv (run es (mount t0))"
  by (rule run_inv [OF mount_inv])

lemma timer_inv_length: "timer_inv s \<Longrightarrow> length (timers s) \<le> 1"
  by (erule timer_inv_cases) simp_all

lemma timeoutFires_not_pending:
  assumes "\<forall>t \<in> set (timers s). tid t \<noteq> h \<or> now < due t"
  shows "timeoutFires now h s = s"
proof -
  have "find (\<lambda>t. tid t = h \<and> due t \<le> now) (timers s) = None"
    using assms by (auto simp: find_None_iff)
  then show ?thesis by (simp add: timeoutFires_def)
qed

lemma timeoutFires_single:
  assumes "timers s = [t]" "tid t = h" "due t \<le> now"
  shows "timeoutFires now h s =
           render now s (if captured t then (clearTimeout h s)\<lparr>showControls := False\<rparr>
                         else clearTimeout h s)"
  using assms by (simp add: timeoutFires_def Let_def)

lemma render_timers_tid:
  assumes "timers new = []"
  shows "\<forall>t \<in> set (timers (render now old new)). tid t = nextTimerId new"
  using assms
  by (simp add: render_def Let_def resetControlsTimeout_def clearTimeout_def split: option.splits)

text \<open>
  Claim C3. In every state that the screen reaches from its first render, at most one
  hide timer is pending. Calling \<open>resetControlsTimeout\<close> at time \<open>ta\<close> and again at
  time \<open>tb\<close> leaves exactly one pending timer, the second one, due at \<open>tb + 3000\<close>: the
  first timer never fires, the second does nothing before \<open>tb + 3000\<close>, and when it
  fires at or after \<open>tb + 3000\<close> it hides the controls if the captured flag says that
  playback is active, and it is not pending afterwards, so it cannot fire twice.
\<close>

theorem single_pending_hide_timer:
  assumes "s = run es (mount t0)"
    and "sb = resetControlsTimeout tb cb (resetControlsTimeout ta ca s)"
    and "ha = nextTimerId s" and "hb = Suc ha"
  shows "length (timers s) \<le> 1 \<and>
         length (timers (resetControlsTimeout ta ca s)) \<le> 1 \<and>
         timers sb = [\<lparr>tid = hb, due = tb + 3000, captured = cb\<rparr>] \<and>
         timeoutFires now ha sb = sb \<and>
         (now < tb + 3000 \<longrightarrow> timeoutFires now hb sb = sb) \<and>
         (tb + 3000 \<le> now \<longrightarrow>
            showControls (timeoutFires now hb sb) = (showControls s \<and> \<not> cb) \<and>
            hb \<notin> tid ` set (timers (timeoutFires now hb sb)) \<and>
            timeoutFires now' hb (timeoutFires now hb sb) = timeoutFires now hb sb)"
proof -
  have inv: "timer_inv s" unfolding assms(1) by (rule reachable_inv)
  let ?s1 = "resetControlsTimeout ta ca s"
  have inv1: "timer_inv ?s1" by (rule resetControlsTimeout_inv [OF inv])
  have inv2: "timer_inv sb" unfolding assms(2) by (rule resetControlsTimeout_inv [OF inv1])
  have tm: "timers sb = [\<lparr>tid = hb, due = tb + 3000, captured = cb\<rparr>]"
    unfolding assms(2) by (simp add: resetControlsTimeout_timers [OF inv1] assms(3,4))
  have nb: "nextTimerId sb = Suc hb"
    unfolding assms(2) by (simp add: assms(3,4))
  have a: "length (timers s) \<le> 1" by (rule timer_inv_length [OF inv])
  have b: "length (timers ?s1) \<le> 1" by (rule timer_inv_length [OF inv1])
  have c: "timeoutFires now ha sb = sb"
    by (rule timeoutFires_not_pending) (simp add: tm assms(4))
  have d: "now < tb + 3000 \<longrightarrow> timeoutFires now hb sb = sb"
  proof
    assume "now < tb + 3000"
    then show "timeoutFires now hb sb = sb"
      by (intro timeoutFires_not_pending) (simp add: tm)
  qed
  have e: "showControls (timeoutFires now hb sb) = (showControls s \<and> \<not> cb) \<and>
           hb \<notin> tid ` set (timers (timeoutFires now hb sb)) \<and>
           timeoutFires now' hb (timeoutFires now hb sb) = timeoutFires now hb sb"
    if due: "tb + 3000 \<le> now"
  proof -
    let ?new = "if cb then (clearTimeout hb sb)\<lparr>showControls := False\<rparr> else clearTimeout hb sb"
    have f: "timeoutFires now hb sb = render now sb ?new"
      using timeoutFires_single [of sb "\<lparr>tid = hb, due = tb + 3000, captured = cb\<rparr>" hb now] tm due
      by simp
    have sc: "showControls sb = showControls s" unfolding assms(2) by simp
    have ea: "showControls (timeoutFires now hb sb) = (showControls s \<and> \<not> cb)"
      unfolding f by (simp add: sc)
    have emp: "timers ?new = []" by (simp add: clearTimeout_def tm)
    have nn: "nextTimerId ?new = Suc hb" by (simp add: nb)
    have ids: "\<forall>t \<in> set (timers (timeoutFires now hb sb)). tid t = Suc hb"
      unfolding f using render_timers_tid [OF emp, of now sb] by (simp only: nn)
    then have eb: "hb \<notin> tid ` set (timers (timeoutFires now hb sb))" by auto
    have ec: "timeoutFires now' hb (timeoutFires now hb sb) = timeoutFires now hb sb"
      by (rule timeoutFires_not_pending) (use ids in auto)
    from ea eb ec show ?thesis by simp
  qed
  from a b tm c d e show ?thesis by blast
qed

theorem single_pending_hide_timer_witness:
  "timers (resetControlsTimeout 1500 True (resetControlsTimeout 1000 True (mount 0))) =
     [\<lparr>tid = 3, due = 4500, captured = True\<rparr>] \<and>
   timeoutFires 4000 3 (resetControlsTimeout 1500 True (resetControlsTimeout 1000 True (mount 0))) =
     resetControlsTimeout 1500 True (resetControlsTimeout 1000 True (mount 0)) \<and>
   \<not> showControls (timeoutFires 4500 3
        (resetControlsTimeout 1500 True (resetControlsTimeout 1000 True (mount 0))))"
proof -
  have n: "nextTimerId (mount 0) = 2"
    by (simp add: mount_def initialPlayer_def)
  have sc: "showControls (mount 0)"
    by (simp add: mount_def initialPlayer_def)
  have r: "mount 0 = run [] (mount 0)" by simp
  note w = single_pending_hide_timer [OF r refl refl refl, where tb = 1500 and cb = True
      and ta = 1000 and ca = True]
  have lt: "(4000::nat) < 1500 + 3000" by simp
  have le: "(1500::nat) + 3000 \<le> 4500" by simp
  from w [where now = 4000] lt have a: "timeoutFires 4000 3 (resetControlsTimeout 1500 True (resetControlsTimeout 1000 True (mount 0))) =
     resetControlsTimeout 1500 True (resetControlsTimeout 1000 True (mount 0))"
    by (simp add: n)
  from w [where now = 4500] le sc have b: "\<not> showControls (timeoutFires 4500 3
        (resetControlsTimeout 1500 True (resetControlsTimeout 1000 True (mount 0))))"
    by (simp add: n)
  from w [where now = 0] have c: "timers (resetControlsTimeout 1500 True (resetControlsTimeout 1000 True (mount 0))) =
     [\<lparr>tid = 3, due = 4500, captured = True\<rparr>]"
    by (simp add: n)
  from a b c show ?thesis by simp
qed

section \<open>Concrete runs\<close>

lemmas eval_defs =
  mount_def initialPlayer_def resetControlsTimeout_def clearTimeout_def render_def
  pickVideo_def onPlaybackStatusUpdate_def togglePlayPause_def seekBackward_def
  seekForward_def timeoutFires_def Let_def orStr_def emptyStatus_def clipA_def clipB_def
  loadedStatus_def

section \<open>Status events\<close>

text \<open>
  Claim C1, as stated, fails: after a second pick has replaced the source, an event that
  the first source's playback produced still replaces the status.
\<close>

theorem stale_event_counterexample:
  "status (onPlaybackStatusUpdate 5001 (loadedStatus True 4900)
      (run [(0, PickVideo (Assets [clipA])), (500, StatusUpdate (loadedStatus True 400)),
            (5000, PickVideo (Assets [clipB]))] (mount 0)))
   \<noteq> status (run [(0, PickVideo (Assets [clipA])), (500, StatusUpdate (loadedStatus True 400)),
            (5000, PickVideo (Assets [clipB]))] (mount 0))"
  by (simp add: eval_defs)

text \<open>
  Claim C1, amended. The handler has no notion of the adapter an event comes from: every
  delivered status event, in every state, becomes the status, and a pick changes neither
  the status nor the way later events are applied.
\<close>

theorem every_status_event_applied:
  "status (onPlaybackStatusUpdate now ev s) = ev \<and>
   status (pickVideo now r s) = status s \<and>
   status (onPlaybackStatusUpdate now' ev (pickVideo now r s)) = ev"
  by (simp add: onPlaybackStatusUpdate_def Let_def pickVideo_def split: picked.splits list.splits)

section \<open>Loading a file\<close>

lemma changeSpeed_status: "status (changeSpeed now s) = status s"
  unfolding changeSpeed_def Let_def by simp

text \<open>
  Claim C8, as stated, fails: a pick made while a clip plays at \<open>1.25x\<close> leaves the
  speed label at \<open>1.25x\<close> and the status as the engine last reported it.
\<close>

theorem load_reset_counterexample:
  "currentSpeed (pickVideo 5000 (Assets [clipB])
      (run [(0, PickVideo (Assets [clipA])), (500, StatusUpdate (loadedStatus True 400)),
            (800, ChangeSpeed)] (mount 0))) = ''1.25x'' \<and>
   status (pickVideo 5000 (Assets [clipB])
      (run [(0, PickVideo (Assets [clipA])), (500, StatusUpdate (loadedStatus True 400)),
            (800, ChangeSpeed)] (mount 0))) = loadedStatus True 400"
  by (simp add: eval_defs changeSpeed_label changeSpeed_status nextSpeedLabel_table)

text \<open>
  Claim C8, amended. A successful pick stores the URI and the name of the first picked
  file (\<open>Unknown\<close> for an empty name) and nothing else: the status, the playing flag and
  the speed label stay as they were, and no command goes to the engine.
\<close>

theorem pickVideo_keeps_playback_state:
  "videoUri (pickVideo now (Assets (a # as)) s) = Some (asset_uri a) \<and>
   currentFileName (pickVideo now (Assets (a # as)) s) = orStr (asset_name a) ''Unknown'' \<and>
   status (pickVideo now (Assets (a # as)) s) = status s \<and>
   isPlaying_st (pickVideo now (Assets (a # as)) s) = isPlaying_st s \<and>
   currentSpeed (pickVideo now (Assets (a # as)) s) = currentSpeed s \<and>
   engine (pickVideo now (Assets (a # as)) s) = engine s"
  by (simp add: pickVideo_def)

section \<open>Seeking\<close>

lemma seekBackward_engine:
  "engine (seekBackward now ok s) =
     (if videoRef s \<and> has (positionMillis (status s))
      then engine s @ [SetPositionAsync (max 0 (orNum (positionMillis (status s)) 0 - 10000))]
      else engine s)"
  by (simp add: seekBackward_def Let_def)

lemma seekForward_engine:
  "engine (seekForward now ok s) =
     (if videoRef s \<and> has (positionMillis (status s)) \<and> has (durationMillis (status s))
      then engine s @ [SetPositionAsync (min (orNum (durationMillis (status s)) 0)
                                             (orNum (positionMillis (status s)) 0 + 10000))]
      else engine s)"
  by (simp add: seekForward_def Let_def)

text \<open>
  Claim C2, as stated, fails: on a loaded clip at 5000 ms whose status has no
  \<open>durationMillis\<close> key, the specification's target for a forward step is 5000, and
  \<open>seekForward\<close> sends no seek at all.
\<close>

theorem seek_clamp_counterexample:
  "spec_seekBy_target 5000 10000 None = 5000 \<and>
   engine (seekForward 2000 True
      (run [(0, PickVideo (Assets [clipA])), (500, StatusUpdate (noDurationStatus 5000))]
           (mount 0))) = []"
  by (simp add: eval_defs noDurationStatus_def spec_seekBy_target_def clamp_def)

text \<open>
  Claim C2, amended. The screen seeks by the fixed steps of 10000 ms only. When the video
  component exists and the status carries a position \<open>p\<close> and a duration \<open>d\<close> with
  \<open>0 \<le> p \<le> d\<close>, \<open>seekBackward\<close> sends a seek to \<open>clamp(p - 10000, 0, d)\<close> and
  \<open>seekForward\<close> a seek to \<open>clamp(p + 10000, 0, d)\<close>, both within \<open>[0, d]\<close>.
  \<open>seekForward\<close> sends nothing when the status has no \<open>durationMillis\<close> key. At
  position 5000 \<open>seekBackward\<close> seeks to 0.
\<close>

theorem seek_steps_clamped:
  "(videoRef s \<and> positionMillis (status s) = Val p \<and> durationMillis (status s) = Val d \<and>
      0 \<le> p \<and> p \<le> d \<longrightarrow>
      engine (seekBackward now ok s) =
        engine s @ [SetPositionAsync (spec_seekBy_target p (- 10000) (Some d))] \<and>
      engine (seekForward now ok s) =
        engine s @ [SetPositionAsync (spec_seekBy_target p 10000 (Some d))] \<and>
      0 \<le> spec_seekBy_target p (- 10000) (Some d) \<and> spec_seekBy_target p (- 10000) (Some d) \<le> d \<and>
      0 \<le> spec_seekBy_target p 10000 (Some d) \<and> spec_seekBy_target p 10000 (Some d) \<le> d) \<and>
   (durationMillis (status s) = Absent \<longrightarrow> engine (seekForward now ok s) = engine s) \<and>
   (videoRef s \<and> positionMillis (status s) = Val 5000 \<longrightarrow>
      engine (seekBackward now ok s) = engine s @ [SetPositionAsync 0])"
  by (auto simp: seekBackward_engine seekForward_engine spec_seekBy_target_def clamp_def)

theorem seek_steps_clamped_witness:
  "engine (seekBackward 2000 True
      (run [(0, PickVideo (Assets [clipA])), (500, StatusUpdate (loadedStatus False 5000))]
           (mount 0))) = [SetPositionAsync 0] \<and>
   engine (seekForward 2000 True
      (run [(0, PickVideo (Assets [clipA])), (500, StatusUpdate (loadedStatus False 55000))]
           (mount 0))) = [SetPositionAsync 60000] \<and>
   engine (seekForward 2000 True
      (run [(0, PickVideo (Assets [clipA])), (500, StatusUpdate (noDurationStatus 5000))]
           (mount 0))) = []"
proof -
  let ?a = "run [(0, PickVideo (Assets [clipA])), (500, StatusUpdate (loadedStatus False 5000))] (mount 0)"
  let ?b = "run [(0, PickVideo (Assets [clipA])), (500, StatusUpdate (loadedStatus False 55000))] (mount 0)"
  let ?c = "run [(0, PickVideo (Assets [clipA])), (500, StatusUpdate (noDurationStatus 5000))] (mount 0)"
  have a: "videoRef ?a \<and> positionMillis (status ?a) = Val 5000 \<and> engine ?a = []"
    by (simp add: eval_defs)
  have b: "videoRef ?b \<and> positionMillis (status ?b) = Val 55000 \<and>
           durationMillis (status ?b) = Val 60000 \<and> engine ?b = []"
    by (simp add: eval_defs)
  have c: "durationMillis (status ?c) = Absent \<and> engine ?c = []"
    by (simp add: eval_defs noDurationStatus_def)
  have "engine (seekBackward 2000 True ?a) = [SetPositionAsync 0]"
    using seek_steps_clamped [of ?a 0 0 2000 True] a by simp
  moreover have "engine (seekForward 2000 True ?b) = [SetPositionAsync 60000]"
    using seek_steps_clamped [of ?b 55000 60000 2000 True] b
    by (simp add: spec_seekBy_target_def clamp_def)
  moreover have "engine (seekForward 2000 True ?c) = []"
    using seek_steps_clamped [of ?c 0 0 2000 True] c by simp
  ultimately show ?thesis by simp
qed

section \<open>Play and pause\<close>


lemma ref_inv_reset [simp]: "ref_inv (resetControlsTimeout now c s) = ref_inv s"
  by (simp add: ref_inv_def)

lemma ref_inv_render [simp]: "ref_inv (render now old new)"
  by (simp add: ref_inv_def render_def Let_def)

lemma ref_inv_step: "ref_inv s \<Longrightarrow> ref_inv (step now e s)"
proof (cases e)
  case (PickVideo r)
  assume "ref_inv s"
  then show ?thesis using PickVideo
    by (simp add: pickVideo_def split: picked.splits list.splits)
next
  case (TogglePlayPause ok)
  assume "ref_inv s"
  then have "ref_inv (s\<lparr>engine := engine s @ [if isPlaying_st s then PauseAsync else PlayAsync]\<rparr>)"
    by (simp add: ref_inv_def)
  then show ?thesis using TogglePlayPause \<open>ref_inv s\<close>
    by (simp add: togglePlayPause_def Let_def)
next
  case ChangeSpeed
  then show ?thesis by (simp add: changeSpeed_def Let_def)
next
  case (SeekBackward ok)
  assume "ref_inv s"
  then have "\<And>x. ref_inv (s\<lparr>engine := x\<rparr>)"
    by (simp add: ref_inv_def)
  then show ?thesis using SeekBackward \<open>ref_inv s\<close>
    by (simp add: seekBackward_def Let_def)
next
  case (SeekForward ok)
  assume "ref_inv s"
  then have "\<And>x. ref_inv (s\<lparr>engine := x\<rparr>)"
    by (simp add: ref_inv_def)
  then show ?thesis using SeekForward \<open>ref_inv s\<close>
    by (simp add: seekForward_def Let_def)
next
  case ToggleFullscreen
  then show ?thesis by (simp add: toggleFullscreen_def)
next
  case HandleVideoTap
  then show ?thesis by (simp add: handleVideoTap_def Let_def)
next
  case (StatusUpdate ps)
  then show ?thesis by (simp add: onPlaybackStatusUpdate_def Let_def)
next
  case (TimeoutFires h)
  assume "ref_inv s"
  then show ?thesis using TimeoutFires
    by (simp add: timeoutFires_def Let_def split: option.splits)
qed

lemma ref_inv_run: "ref_inv s \<Longrightarrow> ref_inv (run es s)"
proof (induction es arbitrary: s)
  case Nil
  then show ?case by simp
next
  case (Cons e es)
  obtain now ev where e: "e = (now, ev)" by (cases e)
  from Cons.prems have "ref_inv (step now ev s)" by (rule ref_inv_step)
  then show ?case using Cons.IH e by simp
qed

lemma ref_inv_reachable: "ref_inv (run es (mount t0))"
  by (rule ref_inv_run) (simp add: ref_inv_def mount_def initialPlayer_def)

lemma togglePlayPause_engine:
  "engine (togglePlayPause now ok s) =
     (if videoRef s then engine s @ [if isPlaying_st s then PauseAsync else PlayAsync]
      else engine s)"
  by (simp add: togglePlayPause_def Let_def)

lemma togglePlayPause_status: "status (togglePlayPause now ok s) = status s"
  by (simp add: togglePlayPause_def Let_def)

lemma togglePlayPause_flag: "isPlaying_st (togglePlayPause now ok s) = isPlaying_st s"
  by (simp add: togglePlayPause_def Let_def)

text \<open>
  Claim C6, as stated, fails: with a file picked whose status says that nothing is
  loaded, \<open>togglePlayPause\<close> of the video screen sends \<open>playAsync\<close>.
\<close>

theorem toggle_unloaded_counterexample:
  "\<not> truthyBool (isLoaded (status
        (run [(0, PickVideo (Assets [clipA])), (500, StatusUpdate errorStatus)] (mount 0)))) \<and>
   engine (run [(0, PickVideo (Assets [clipA])), (500, StatusUpdate errorStatus)] (mount 0)) = [] \<and>
   engine (togglePlayPause 1000 True
        (run [(0, PickVideo (Assets [clipA])), (500, StatusUpdate errorStatus)] (mount 0)))
     = [PlayAsync]"
  by (simp add: eval_defs errorStatus_def)

text \<open>
  Claim C6, amended. \<open>togglePlayPause\<close> never changes the status. On the video screen
  it sends no command when no file has been picked (the video component does not exist);
  it does not look at \<open>status.isLoaded\<close>. On the audio screen it does nothing at all
  when there is no sound object, and when the sound object reports that it is not loaded
  it only queries the status: no play, no pause, and the playing flag keeps its value.
\<close>

theorem toggle_without_player_is_noop:
  "status (togglePlayPause now ok s) = status s \<and>
   (videoUri (run es (mount t0)) = None \<longrightarrow>
      engine (togglePlayPause now ok (run es (mount t0))) = engine (run es (mount t0))) \<and>
   (sound a = None \<longrightarrow> togglePlayPauseAudio st ok a = a) \<and>
   (sound a = Some h \<and> \<not> truthyBool (isLoaded stat) \<longrightarrow>
      togglePlayPauseAudio (Some stat) ok a = a\<lparr>sound_calls := sound_calls a @ [GetStatusAsync h]\<rparr>)"
proof (intro conjI impI)
  show "status (togglePlayPause now ok s) = status s"
    by (rule togglePlayPause_status)
next
  assume n: "videoUri (run es (mount t0)) = None"
  have "ref_inv (run es (mount t0))" by (rule ref_inv_reachable)
  with n have "\<not> videoRef (run es (mount t0))" by (simp add: ref_inv_def)
  then show "engine (togglePlayPause now ok (run es (mount t0))) = engine (run es (mount t0))"
    by (simp add: togglePlayPause_engine)
next
  assume "sound a = None"
  then show "togglePlayPauseAudio st ok a = a"
    by (simp add: togglePlayPauseAudio_def)
next
  assume "sound a = Some h \<and> \<not> truthyBool (isLoaded stat)"
  then show "togglePlayPauseAudio (Some stat) ok a = a\<lparr>sound_calls := sound_calls a @ [GetStatusAsync h]\<rparr>"
    by (simp add: togglePlayPauseAudio_def Let_def)
qed

theorem toggle_without_player_is_noop_witness:
  "engine (togglePlayPause 1000 True (run [(500, HandleVideoTap)] (mount 0))) = [] \<and>
   togglePlayPauseAudio None True initialAudio = initialAudio \<and>
   sound_calls (togglePlayPauseAudio (Some errorStatus) True (initialAudio\<lparr>sound := Some 7\<rparr>))
     = [GetStatusAsync 7]"
proof -
  let ?s = "run [(500, HandleVideoTap)] (mount 0)"
  have u: "videoUri ?s = None \<and> engine ?s = []"
    by (simp add: eval_defs handleVideoTap_def)
  have n: "sound initialAudio = None" by (simp add: initialAudio_def)
  have e: "sound (initialAudio\<lparr>sound := Some 7\<rparr>) = Some 7 \<and> \<not> truthyBool (isLoaded errorStatus)"
    by (simp add: errorStatus_def)
  note w = toggle_without_player_is_noop [where es = "[(500, HandleVideoTap)]" and ?t0.0 = 0
      and now = 1000 and ok = True]
  have "engine (togglePlayPause 1000 True ?s) = []"
    using w u by simp
  moreover have "togglePlayPauseAudio None True initialAudio = initialAudio"
    using w [where a = initialAudio and st = None] n by simp
  moreover have "sound_calls (togglePlayPauseAudio (Some errorStatus) True (initialAudio\<lparr>sound := Some 7\<rparr>))
     = [GetStatusAsync 7]"
    using w [where a = "initialAudio\<lparr>sound := Some 7\<rparr>" and h = 7 and stat = errorStatus] e
    by (simp add: initialAudio_def)
  ultimately show ?thesis by simp
qed

text \<open>
  Claim C7, as stated, fails: on a loaded, paused clip \<open>togglePlayPause\<close> of the video
  screen sends \<open>playAsync\<close> and leaves the playing flag false.
\<close>

theorem optimistic_flip_counterexample:
  "truthyBool (isLoaded (status
        (run [(0, PickVideo (Assets [clipA])), (500, StatusUpdate (loadedStatus False 0))] (mount 0)))) \<and>
   \<not> isPlaying_st (run [(0, PickVideo (Assets [clipA])), (500, StatusUpdate (loadedStatus False 0))] (mount 0)) \<and>
   engine (togglePlayPause 1000 True
        (run [(0, PickVideo (Assets [clipA])), (500, StatusUpdate (loadedStatus False 0))] (mount 0)))
     = [PlayAsync] \<and>
   \<not> isPlaying_st (togglePlayPause 1000 True
        (run [(0, PickVideo (Assets [clipA])), (500, StatusUpdate (loadedStatus False 0))] (mount 0)))"
  by (simp add: eval_defs)

text \<open>
  Claim C7, amended. On the video screen \<open>togglePlayPause\<close> does not touch the playing
  flag; the flag is written by status events only, and after every status event that has
  an \<open>isLoaded\<close> key it equals the \<open>isPlaying\<close> value of the event (false when the event
  has none). On the audio screen, which handles no status events, \<open>togglePlayPause\<close>
  flips the flag when the sound is loaded and the play or pause call has resolved, and
  leaves it when that call rejects.
\<close>

theorem playing_flag_follows_events:
  "isPlaying_st (togglePlayPause now ok s) = isPlaying_st s \<and>
   (has (isLoaded ev) \<longrightarrow>
      isPlaying_st (onPlaybackStatusUpdate now ev s) = orBool (isPlaying ev) False) \<and>
   (isLoaded ev = Val True \<and> isPlaying ev = Val b \<longrightarrow>
      isPlaying_st (onPlaybackStatusUpdate now ev (togglePlayPause now' ok s)) = b) \<and>
   (sound a = Some h \<and> truthyBool (isLoaded stat) \<longrightarrow>
      isPlaying_au (togglePlayPauseAudio (Some stat) True a) = (\<not> isPlaying_au a) \<and>
      isPlaying_au (togglePlayPauseAudio (Some stat) False a) = isPlaying_au a)"
  by (auto simp: togglePlayPause_flag onPlaybackStatusUpdate_def togglePlayPauseAudio_def Let_def)

theorem playing_flag_follows_events_witness:
  "isPlaying_st (onPlaybackStatusUpdate 1200 (loadedStatus True 0)
      (togglePlayPause 1000 True
        (run [(0, PickVideo (Assets [clipA])), (500, StatusUpdate (loadedStatus False 0))] (mount 0)))) \<and>
   isPlaying_au (togglePlayPauseAudio (Some (loadedStatus False 0)) True (initialAudio\<lparr>sound := Some 7\<rparr>))"
proof -
  let ?s = "run [(0, PickVideo (Assets [clipA])), (500, StatusUpdate (loadedStatus False 0))] (mount 0)"
  have h: "has (isLoaded (loadedStatus True 0)) \<and> isLoaded (loadedStatus True 0) = Val True \<and>
           isPlaying (loadedStatus True 0) = Val True"
    by (simp add: loadedStatus_def)
  have a: "sound (initialAudio\<lparr>sound := Some 7\<rparr>) = Some 7 \<and>
           truthyBool (isLoaded (loadedStatus False 0)) \<and>
           \<not> isPlaying_au (initialAudio\<lparr>sound := Some 7\<rparr>)"
    by (simp add: loadedStatus_def initialAudio_def)
  note w = playing_flag_follows_events [where ev = "loadedStatus True 0" and b = True
      and a = "initialAudio\<lparr>sound := Some 7\<rparr>" and h = 7 and stat = "loadedStatus False 0"]
  have "isPlaying_st (onPlaybackStatusUpdate 1200 (loadedStatus True 0) (togglePlayPause 1000 True ?s))"
    using w [where now = 1200 and now' = 1000 and ok = True and s = ?s] h by blast
  moreover have "isPlaying_au (togglePlayPauseAudio (Some (loadedStatus False 0)) True (initialAudio\<lparr>sound := Some 7\<rparr>))"
    using w a by blast
  ultimately show ?thesis by simp
qed

section \<open>Hiding the controls\<close>

text \<open>
  Claim C4 says that the controls never hide while playback is not active: a hide fires
  only while playback is active, and a stop of playback cancels the pending hide. The
  callback of the timer tests \<open>isPlaying\<close> for this purpose, but it tests the value of
  the render in which the timer was armed. At this run a clip plays; the user taps pause
  at 2000 ms, which arms the timer with \<open>isPlaying\<close> still true; the engine reports the
  pause at 2100 ms, which cancels nothing; the timer fires at 5000 ms and hides the
  controls while playback is paused.
\<close>

theorem hide_fires_while_paused:
  "timers (run [(0, PickVideo (Assets [clipA])), (500, StatusUpdate (loadedStatus True 0)),
                (2000, TogglePlayPause True), (2100, StatusUpdate (loadedStatus False 2000))]
               (mount 0)) = [\<lparr>tid = 2, due = 5000, captured = True\<rparr>] \<and>
   \<not> isPlaying_st (run [(0, PickVideo (Assets [clipA])), (500, StatusUpdate (loadedStatus True 0)),
                (2000, TogglePlayPause True), (2100, StatusUpdate (loadedStatus False 2000)),
                (5000, TimeoutFires 2)] (mount 0)) \<and>
   \<not> showControls (run [(0, PickVideo (Assets [clipA])), (500, StatusUpdate (loadedStatus True 0)),
                (2000, TogglePlayPause True), (2100, StatusUpdate (loadedStatus False 2000)),
                (5000, TimeoutFires 2)] (mount 0))"
  by (simp add: eval_defs)

section \<open>The audio screen's position\<close>

lemma renderAudio_position [simp]:
  "position (renderAudio old new) = position new"
  by (simp add: renderAudio_def split: option.splits)

lemma pickAudio_position: "position (pickAudio r env s) = position s"
  by (simp add: pickAudio_def Let_def split: picked.splits list.splits option.splits)

lemma togglePlayPauseAudio_position: "position (togglePlayPauseAudio st ok s) = position s"
  by (simp add: togglePlayPauseAudio_def Let_def split: option.splits)

lemma stepAudio_position: "position (stepAudio e s) = position s"
  by (cases e) (simp_all add: pickAudio_position togglePlayPauseAudio_position)

lemma runAudio_position: "position (runAudio es s) = position s"
  by (induction es arbitrary: s) (simp_all add: stepAudio_position)

lemma showNat_digit: "n < 10 \<Longrightarrow> showNat n = [digit n]"
  by (simp add: showNat.simps)

lemma formatTime_zero: "formatTime 0 = ''0:00''"
  by (simp add: formatTime_def jsRem_def showInt_def showNat_digit padStart_def digit_def)

lemma renderAudio_duration [simp]:
  "duration (renderAudio old new) = duration new"
  by (simp add: renderAudio_def split: option.splits)

lemma pickAudio_duration_loaded:
  assumes "sound s = None \<or> unloadOk env" "created env = Some n"
    "newStatus env = Some st" "truthyBool (isLoaded st)"
  shows "duration (pickAudio (Assets (a # as)) env s) = orNum (durationMillis st) 0"
  using assms by (auto simp: pickAudio_def Let_def)

lemma pickAudio_duration_kept:
  assumes "(\<forall>a as. r \<noteq> Assets (a # as)) \<or> (sound s \<noteq> None \<and> \<not> unloadOk env) \<or>
    created env = None \<or> (\<forall>st. newStatus env = Some st \<longrightarrow> \<not> truthyBool (isLoaded st))"
  shows "duration (pickAudio r env s) = duration s"
  using assms
  by (auto simp: pickAudio_def Let_def split: picked.splits list.splits option.splits)

lemma togglePlayPauseAudio_duration: "duration (togglePlayPauseAudio st ok s) = duration s"
  by (simp add: togglePlayPauseAudio_def Let_def split: option.splits)

lemma digit_0: "digit 0 = CHR ''0''"
  by (simp add: digit_def)

lemma showNat_two_digits:
  assumes "n < 60"
  shows "padStart 2 (CHR ''0'') (showNat n) = [digit (n div 10), digit (n mod 10)]"
proof (cases "n < 10")
  case True
  then show ?thesis
    by (simp add: showNat_digit padStart_def digit_0)
next
  case False
  with assms have "n div 10 < 10" by simp
  then have "showNat n = [digit (n div 10), digit (n mod 10)]"
    using False by (subst showNat.simps) (simp add: showNat_digit)
  then show ?thesis by (simp add: padStart_def)
qed

lemma formatTime_minutes_seconds:
  assumes "sec < 60" "ms < 1000"
  shows "formatTime (int (m * 60000 + sec * 1000 + ms)) =
           showNat m @ '':'' @ [digit (sec div 10), digit (sec mod 10)]"
proof -
  have "(m * 60000 + sec * 1000 + ms) div 1000 = m * 60 + sec"
    using assms by simp
  then have t: "int (m * 60000 + sec * 1000 + ms) div 1000 = int (m * 60 + sec)"
    by (metis of_nat_numeral zdiv_int)
  have "(m * 60 + sec) div 60 = m" using assms by simp
  then have mi: "int (m * 60 + sec) div 60 = int m"
    by (metis of_nat_numeral zdiv_int)
  have "(m * 60 + sec) mod 60 = sec" using assms by simp
  then have "int (m * 60 + sec) mod 60 = int sec"
    by (metis of_nat_numeral zmod_int)
  then have se: "jsRem (int (m * 60 + sec)) 60 = int sec"
  proof (cases "m * 60 + sec = 0")
    case True
    then have "sec = 0" by simp
    with True show ?thesis by (simp add: jsRem_def)
  next
    case False
    then have "0 < m * 60 + sec" by simp
    then have "0 < int (m * 60 + sec)" by (simp only: of_nat_0_less_iff)
    then have "sgn (int (m * 60 + sec)) = 1" and "\<bar>int (m * 60 + sec)\<bar> = int (m * 60 + sec)"
      by simp_all
    with \<open>int (m * 60 + sec) mod 60 = int sec\<close> show ?thesis
      by (simp only: jsRem_def abs_numeral mult_1)
  qed
  show ?thesis
    unfolding formatTime_def Let_def t mi se
    by (simp add: showInt_def showNat_two_digits [OF assms(1)])
qed

lemma formatTime_one_minute: "formatTime 60000 = ''1:00''"
  using formatTime_minutes_seconds [of 0 0 1]
  by (simp add: showNat_digit digit_def)

text \<open>
  Claim C10, as stated, fails in its last part: after a track of one minute has been
  picked, a second pick whose sound reports a status that is not loaded shows the new
  track's name and still the duration \<open>1:00\<close> of the previous track.
\<close>

theorem stale_duration_label_counterexample:
  "trackName (runAudio
      [PickAudio (Assets [clipA])
         \<lparr>unloadOk = True, created = Some 7, newStatus = Some (loadedStatus False 0)\<rparr>,
       PickAudio (Assets [clipB])
         \<lparr>unloadOk = True, created = Some 8, newStatus = Some errorStatus\<rparr>]
      initialAudio) = ''b.mp3'' \<and>
   sound (runAudio
      [PickAudio (Assets [clipA])
         \<lparr>unloadOk = True, created = Some 7, newStatus = Some (loadedStatus False 0)\<rparr>,
       PickAudio (Assets [clipB])
         \<lparr>unloadOk = True, created = Some 8, newStatus = Some errorStatus\<rparr>]
      initialAudio) = Some 8 \<and>
   durationLabel (runAudio
      [PickAudio (Assets [clipA])
         \<lparr>unloadOk = True, created = Some 7, newStatus = Some (loadedStatus False 0)\<rparr>,
       PickAudio (Assets [clipB])
         \<lparr>unloadOk = True, created = Some 8, newStatus = Some errorStatus\<rparr>]
      initialAudio) = ''1:00''"
  by (simp add: pickAudio_def renderAudio_def Let_def initialAudio_def clipA_def clipB_def
      loadedStatus_def errorStatus_def orStr_def durationLabel_def formatTime_one_minute)

text \<open>
  Claim C10, amended. On the audio screen the position starts at 0 and no handler changes
  it: after every sequence of picks and play/pause taps, whatever the picker and the
  engine answer, the position is 0, the progress bar is at 0 percent and the elapsed-time
  label reads \<open>0:00\<close>. The duration is written by one step only: a pick that gets a new
  sound object whose status is loaded sets it to the \<open>durationMillis\<close> that the engine
  reports (0 when it reports none). Every other step keeps the duration it finds: a pick
  that is cancelled, returns no asset or fails before the status is read, a pick whose
  status is not loaded, and play/pause. The duration label prints that value as minutes,
  a colon and two digits of seconds.
\<close>

theorem audio_position_never_updated:
  "position (runAudio es initialAudio) = 0 \<and>
   progressPercent (runAudio es initialAudio) = 0 \<and>
   elapsedLabel (runAudio es initialAudio) = ''0:00'' \<and>
   ((sound s = None \<or> unloadOk env) \<and> created env = Some n \<and> newStatus env = Some st \<and>
    isLoaded st = Val True \<and> durationMillis st = Val d \<longrightarrow>
      duration (pickAudio (Assets (a # as)) env s) = d) \<and>
   ((sound s = None \<or> unloadOk env) \<and> created env = Some n \<and> newStatus env = Some st \<and>
    truthyBool (isLoaded st) \<longrightarrow>
      duration (pickAudio (Assets (a # as)) env s) = orNum (durationMillis st) 0) \<and>
   ((\<forall>a as. r \<noteq> Assets (a # as)) \<or> (sound s \<noteq> None \<and> \<not> unloadOk env) \<or>
    created env = None \<or> (\<forall>st. newStatus env = Some st \<longrightarrow> \<not> truthyBool (isLoaded st)) \<longrightarrow>
      duration (pickAudio r env s) = duration s) \<and>
   duration (togglePlayPauseAudio st' ok s) = duration s \<and>
   (duration s = int (m * 60000 + sec * 1000 + ms) \<and> sec < 60 \<and> ms < 1000 \<longrightarrow>
      durationLabel s = showNat m @ '':'' @ [digit (sec div 10), digit (sec mod 10)])"
proof -
  have p: "position (runAudio es initialAudio) = 0"
    by (simp add: runAudio_position initialAudio_def)
  have q: "progressPercent (runAudio es initialAudio) = 0"
    by (simp add: progressPercent_def p)
  have e: "elapsedLabel (runAudio es initialAudio) = ''0:00''"
    by (simp add: elapsedLabel_def p formatTime_zero)
  have l: "duration (pickAudio (Assets (a # as)) env s) = orNum (durationMillis st) 0"
    if "(sound s = None \<or> unloadOk env) \<and> created env = Some n \<and> newStatus env = Some st \<and>
        truthyBool (isLoaded st)"
    using that by (simp add: pickAudio_duration_loaded)
  have v: "duration (pickAudio (Assets (a # as)) env s) = d"
    if "(sound s = None \<or> unloadOk env) \<and> created env = Some n \<and> newStatus env = Some st \<and>
        isLoaded st = Val True \<and> durationMillis st = Val d"
    using that l by simp
  have k: "duration (pickAudio r env s) = duration s"
    if "(\<forall>a as. r \<noteq> Assets (a # as)) \<or> (sound s \<noteq> None \<and> \<not> unloadOk env) \<or>
        created env = None \<or> (\<forall>st. newStatus env = Some st \<longrightarrow> \<not> truthyBool (isLoaded st))"
    using that by (rule pickAudio_duration_kept)
  have t: "duration (togglePlayPauseAudio st' ok s) = duration s"
    by (rule togglePlayPauseAudio_duration)
  have f: "durationLabel s = showNat m @ '':'' @ [digit (sec div 10), digit (sec mod 10)]"
    if h: "duration s = int (m * 60000 + sec * 1000 + ms) \<and> sec < 60 \<and> ms < 1000"
  proof -
    from h have "durationLabel s = formatTime (int (m * 60000 + sec * 1000 + ms))"
      by (simp only: durationLabel_def)
    also from h have "\<dots> = showNat m @ '':'' @ [digit (sec div 10), digit (sec mod 10)]"
      by (intro formatTime_minutes_seconds) simp_all
    finally show ?thesis .
  qed
  from p q e v l k t f show ?thesis by blast
qed

theorem audio_position_never_updated_witness:
  "position (runAudio [PickAudio (Assets [clipB])
        \<lparr>unloadOk = True, created = Some 7, newStatus = Some (loadedStatus False 0)\<rparr>,
      ToggleAudio (Some (loadedStatus False 0)) True] initialAudio) = 0 \<and>
   duration (pickAudio (Assets [clipB])
        \<lparr>unloadOk = True, created = Some 7, newStatus = Some (loadedStatus False 0)\<rparr>
        initialAudio) = 60000 \<and>
   duration (pickAudio (Assets [clipA])
        \<lparr>unloadOk = True, created = Some 8, newStatus = Some errorStatus\<rparr>
        (initialAudio\<lparr>sound := Some 7, duration := 60000\<rparr>)) = 60000 \<and>
   durationLabel (initialAudio\<lparr>sound := Some 7, duration := 754000\<rparr>) = ''12:34''"
proof -
  let ?env = "\<lparr>unloadOk = True, created = Some 7, newStatus = Some (loadedStatus False 0)\<rparr>"
  let ?bad = "\<lparr>unloadOk = True, created = Some 8, newStatus = Some errorStatus\<rparr>"
  let ?s = "initialAudio\<lparr>sound := Some 7, duration := 60000\<rparr>"
  let ?t = "initialAudio\<lparr>sound := Some 7, duration := 754000\<rparr>"
  have h: "(sound initialAudio = None \<or> unloadOk ?env) \<and> created ?env = Some 7 \<and>
           newStatus ?env = Some (loadedStatus False 0) \<and>
           isLoaded (loadedStatus False 0) = Val True \<and>
           durationMillis (loadedStatus False 0) = Val 60000"
    by (simp add: initialAudio_def loadedStatus_def)
  have b: "\<forall>st. newStatus ?bad = Some st \<longrightarrow> \<not> truthyBool (isLoaded st)"
    by (simp add: errorStatus_def)
  have d: "duration ?t = int (12 * 60000 + 34 * 1000 + 0) \<and> (34::nat) < 60 \<and> (0::nat) < 1000"
    by simp
  have sn: "showNat 12 = ''12''"
    by (subst showNat.simps) (simp add: showNat_digit digit_def)
  have "position (runAudio [PickAudio (Assets [clipB]) ?env,
      ToggleAudio (Some (loadedStatus False 0)) True] initialAudio) = 0"
    using audio_position_never_updated
      [where es = "[PickAudio (Assets [clipB]) ?env, ToggleAudio (Some (loadedStatus False 0)) True]"]
    by blast
  moreover have "duration (pickAudio (Assets [clipB]) ?env initialAudio) = 60000"
    using audio_position_never_updated [where s = initialAudio and env = ?env and n = 7
      and st = "loadedStatus False 0" and d = 60000 and a = clipB and as = "[]"] h
    by blast
  moreover have "duration (pickAudio (Assets [clipA]) ?bad ?s) = 60000"
    using audio_position_never_updated [where s = ?s and env = ?bad and r = "Assets [clipA]"] b
    by simp
  moreover have "durationLabel ?t = ''12:34''"
    using audio_position_never_updated [where s = ?t and m = 12 and sec = 34 and ms = 0] d
    by (simp add: sn digit_def)
  ultimately show ?thesis by simp
qed

section \<open>The library\<close>

lemma showNat_0: "showNat 0 = ''0''"
  by (simp add: showNat.simps digit_def)

lemma showNat_1: "showNat (Suc 0) = ''1''"
  by (simp add: showNat.simps digit_def)

lemma addMediaFile_two:
  "mediaFiles (addMediaFile clock dates (Assets [a, b]) s) =
     mediaFiles s @ [newFile (clock 0) (dates 0) 0 a, newFile (clock (Suc 0)) (dates (Suc 0)) (Suc 0) b]"
  by (simp add: addMediaFile_def)

lemma addMediaFile_appends:
  "mediaFiles (addMediaFile clock dates (Assets as) s) =
     mediaFiles s @ map (\<lambda>i. newFile (clock i) (dates i) i (as ! i)) [0..<length as]"
proof -
  have "map (\<lambda>(index, a). newFile (clock index) (dates index) index a) (enumerate 0 as) =
        map (\<lambda>i. newFile (clock i) (dates i) i (as ! i)) [0..<length as]"
    by (rule nth_equalityI) (simp_all add: nth_enumerate_eq)
  then show ?thesis by (simp add: addMediaFile_def)
qed

lemma id_index_differs:
  "mf_id (newFile x dx 0 a) \<noteq> mf_id (newFile y dy (Suc 0) b)"
proof
  assume "mf_id (newFile x dx 0 a) = mf_id (newFile y dy (Suc 0) b)"
  then have "last (showNat x @ ''-0'') = last (showNat y @ ''-1'')"
    by (simp add: newFile_def showNat_0 showNat_1)
  then show False by simp
qed

lemma removeMediaFile_absent:
  assumes "ident \<notin> mf_id ` set (mediaFiles s)"
  shows "removeMediaFile ident button s = s"
proof (cases button)
  case CancelButton
  then show ?thesis by (simp add: removeMediaFile_def)
next
  case RemoveButton
  have "filter (\<lambda>file. mf_id file \<noteq> ident) (mediaFiles s) = mediaFiles s"
    using assms by (auto simp: filter_id_conv)
  then show ?thesis using RemoveButton by (simp add: removeMediaFile_def)
qed

text \<open>
  Claim C9. Adding appends the new files, in the order picked, after the files that were
  there; a filter returns the matching files in that order. After adding \<open>a.mp4\<close> (a
  video) and \<open>b.mp3\<close> (an audio file) to the empty library, whatever the clock reads,
  the video filter shows exactly \<open>a.mp4\<close>, the audio count is 1, and after removing the
  entry with the identifier of \<open>a.mp4\<close> the unfiltered list shows exactly \<open>b.mp3\<close>.
  Removing an identifier that no entry has changes nothing.
\<close>

theorem library_scenario:
  assumes "asset_name a = ''a.mp4''" "mimeType a = Some ''video/mp4''"
    and "asset_name b = ''b.mp3''" "mimeType b = Some ''audio/mpeg''"
    and "lib = addMediaFile clock dates (Assets [a, b]) initialLibrary"
    and "idOfA = mf_id (hd (mediaFiles lib))"
  shows "map mf_name (filteredFiles (setSelectedType (Only Video) lib)) = [''a.mp4''] \<and>
         countByType Audio lib = 1 \<and>
         map mf_name (filteredFiles (setSelectedType All (removeMediaFile idOfA RemoveButton lib)))
           = [''b.mp3''] \<and>
         (ident \<notin> mf_id ` set (mediaFiles s) \<longrightarrow> removeMediaFile ident button s = s) \<and>
         mediaFiles (addMediaFile clock' dates' (Assets as) s) =
           mediaFiles s @ map (\<lambda>i. newFile (clock' i) (dates' i) i (as ! i)) [0..<length as] \<and>
         filteredFiles (setSelectedType All s) = mediaFiles s \<and>
         filteredFiles (setSelectedType (Only t) s) = filter (\<lambda>f. mf_type f = t) (mediaFiles s)"
proof -
  let ?fa = "newFile (clock 0) (dates 0) 0 a"
  let ?fb = "newFile (clock (Suc 0)) (dates (Suc 0)) (Suc 0) b"
  have files: "mediaFiles lib = [?fa, ?fb]"
    unfolding assms(5) by (simp add: addMediaFile_two initialLibrary_def)
  have ta: "mf_type ?fa = Video" and na: "mf_name ?fa = ''a.mp4''"
    by (simp_all add: newFile_def assms(1,2) startsWith_def orStr_def)
  have tb: "mf_type ?fb = Audio" and nb: "mf_name ?fb = ''b.mp3''"
    by (simp_all add: newFile_def assms(3,4) startsWith_def orStr_def)
  have ida: "idOfA = mf_id ?fa" unfolding assms(6) files by simp
  have ne: "mf_id ?fb \<noteq> mf_id ?fa"
    using id_index_differs [of "clock 0" "dates 0" a "clock (Suc 0)" "dates (Suc 0)" b] by simp
  have c1: "map mf_name (filteredFiles (setSelectedType (Only Video) lib)) = [''a.mp4'']"
    by (simp add: filteredFiles_def setSelectedType_def files ta tb na)
  have c2: "countByType Audio lib = 1"
    by (simp add: countByType_def files ta tb)
  have c3: "map mf_name (filteredFiles (setSelectedType All (removeMediaFile idOfA RemoveButton lib)))
           = [''b.mp3'']"
    by (simp add: filteredFiles_def setSelectedType_def removeMediaFile_def files ida ne nb)
  have c4: "ident \<notin> mf_id ` set (mediaFiles s) \<longrightarrow> removeMediaFile ident button s = s"
    by (simp add: removeMediaFile_absent)
  have c5: "mediaFiles (addMediaFile clock' dates' (Assets as) s) =
           mediaFiles s @ map (\<lambda>i. newFile (clock' i) (dates' i) i (as ! i)) [0..<length as]"
    by (rule addMediaFile_appends)
  have c6: "filteredFiles (setSelectedType All s) = mediaFiles s"
    by (simp add: filteredFiles_def setSelectedType_def)
  have c7: "filteredFiles (setSelectedType (Only t) s) = filter (\<lambda>f. mf_type f = t) (mediaFiles s)"
    by (simp add: filteredFiles_def setSelectedType_def)
  from c1 c2 c3 c4 c5 c6 c7 show ?thesis by blast
qed

theorem library_scenario_witness:
  "map mf_name (filteredFiles (setSelectedType (Only Video)
      (addMediaFile (\<lambda>i. 1234) (\<lambda>i. 1234) (Assets [clipA, clipB]) initialLibrary))) = [''a.mp4''] \<and>
   countByType Audio (addMediaFile (\<lambda>i. 1234) (\<lambda>i. 1234) (Assets [clipA, clipB]) initialLibrary) = 1 \<and>
   map mf_name (filteredFiles (setSelectedType All
      (removeMediaFile
         (mf_id (hd (mediaFiles (addMediaFile (\<lambda>i. 1234) (\<lambda>i. 1234) (Assets [clipA, clipB]) initialLibrary))))
         RemoveButton
         (addMediaFile (\<lambda>i. 1234) (\<lambda>i. 1234) (Assets [clipA, clipB]) initialLibrary)))) = [''b.mp3''] \<and>
   removeMediaFile ''nothing'' RemoveButton initialLibrary = initialLibrary"
proof -
  have a: "asset_name clipA = ''a.mp4''" "mimeType clipA = Some ''video/mp4''"
    by (simp_all add: clipA_def)
  have b: "asset_name clipB = ''b.mp3''" "mimeType clipB = Some ''audio/mpeg''"
    by (simp_all add: clipB_def)
  have n: "''nothing'' \<notin> mf_id ` set (mediaFiles initialLibrary)"
    by (simp add: initialLibrary_def)
  note w = library_scenario [OF a b refl refl, where clock = "\<lambda>i. 1234" and dates = "\<lambda>i. 1234"
      and ident = "''nothing''" and s = initialLibrary and button = RemoveButton]
  from w n show ?thesis by blast
qed

end
